theory Spec2Isabelle
  imports Complex_Main "HOL-Library.Log_Nat" "HOL-Library.Multiset"
begin

section \<open>JavaScript numbers\<close>

text \<open>
  The service computes with JavaScript numbers, which are IEEE 754 doubles. A finite
  double is modelled by the rational number it denotes, and every arithmetic operation
  rounds its exact result to the nearest double, ties to the even significand
  (\<open>round64\<close>): 53 significant bits, subnormal numbers below \<open>2^-1022\<close>. There is no
  negative zero: every divisor below is a sum that starts from the literal \<^verbatim>\<open>0\<close>.
\<close>

definition pow2 :: "int \<Rightarrow> rat" where
  "pow2 e = 2 powi e"

text \<open>
  \<open>ilog2 x\<close> is the exponent of the leading bit of \<open>x > 0\<close>:
  \<open>pow2 (ilog2 x) \<le> x < pow2 (ilog2 x + 1)\<close>. It is computed from the bit lengths of the
  numerator and the denominator of \<open>x\<close>.
\<close>

definition ilog2 :: "rat \<Rightarrow> int" where
  "ilog2 x =
     (let (a, b) = quotient_of x; k = bitlen a - bitlen b
      in if pow2 k \<le> x then k else k - 1)"

primrec num_bits :: "num \<Rightarrow> int" where
  "num_bits Num.One = 1"
| "num_bits (Num.Bit0 n) = num_bits n + 1"
| "num_bits (Num.Bit1 n) = num_bits n + 1"

text \<open>The nearest integer, the even one on a tie.\<close>

definition rne :: "rat \<Rightarrow> int" where
  "rne m =
     (let f = \<lfloor>m\<rfloor>; d = m - of_int f
      in if d < 1 / 2 then f else if 1 / 2 < d then f + 1 else if even f then f else f + 1)"

definition round64 :: "rat \<Rightarrow> rat" where
  "round64 x =
     (if x = 0 then 0
      else let e = max (ilog2 \<bar>x\<bar> - 52) (- 1074)
           in sgn x * of_int (rne (\<bar>x\<bar> / pow2 e)) * pow2 e)"

text \<open>
  The four operations on finite doubles, for the places where the source guards the
  divisor and the operands are stakes (32-bit integers) and confidences, so that the
  result stays far below the overflow threshold \<open>2^1024\<close>.
\<close>

definition dadd :: "rat \<Rightarrow> rat \<Rightarrow> rat" where "dadd a b = round64 (a + b)"
definition dsub :: "rat \<Rightarrow> rat \<Rightarrow> rat" where "dsub a b = round64 (a - b)"
definition dmul :: "rat \<Rightarrow> rat \<Rightarrow> rat" where "dmul a b = round64 (a * b)"
definition ddiv :: "rat \<Rightarrow> rat \<Rightarrow> rat" where "ddiv a b = round64 (a / b)"

text \<open>\<^verbatim>\<open>xs.reduce((sum, x) => sum + f(x), 0)\<close> on doubles.\<close>

definition dsum :: "('a \<Rightarrow> rat) \<Rightarrow> 'a list \<Rightarrow> rat" where
  "dsum f xs = foldl (\<lambda>sum x. dadd sum (f x)) 0 xs"

text \<open>
  Where a divisor can be zero the three special values are kept, with the IEEE rules for
  them; a finite result is rounded, and is infinite from \<open>2^1024\<close> on.
\<close>

datatype jsnum = Fin rat | PInf | NInf | NaN

definition signed_inf :: "bool \<Rightarrow> jsnum" where
  "signed_inf positive = (if positive then PInf else NInf)"

definition finite64 :: "rat \<Rightarrow> jsnum" where
  "finite64 x =
     (let r = round64 x in if of_int (2 ^ 1024) \<le> \<bar>r\<bar> then signed_inf (0 < r) else Fin r)"

fun jneg :: "jsnum \<Rightarrow> jsnum" where
  "jneg (Fin a) = Fin (- a)"
| "jneg PInf = NInf"
| "jneg NInf = PInf"
| "jneg NaN = NaN"

fun jadd :: "jsnum \<Rightarrow> jsnum \<Rightarrow> jsnum" where
  "jadd (Fin a) (Fin b) = finite64 (a + b)"
| "jadd NaN _ = NaN"
| "jadd _ NaN = NaN"
| "jadd PInf NInf = NaN"
| "jadd NInf PInf = NaN"
| "jadd PInf _ = PInf"
| "jadd _ PInf = PInf"
| "jadd NInf _ = NInf"
| "jadd _ NInf = NInf"

definition jsub :: "jsnum \<Rightarrow> jsnum \<Rightarrow> jsnum" where
  "jsub a b = jadd a (jneg b)"

fun jmul :: "jsnum \<Rightarrow> jsnum \<Rightarrow> jsnum" where
  "jmul (Fin a) (Fin b) = finite64 (a * b)"
| "jmul NaN _ = NaN"
| "jmul _ NaN = NaN"
| "jmul (Fin a) PInf = (if a = 0 then NaN else signed_inf (0 < a))"
| "jmul (Fin a) NInf = (if a = 0 then NaN else signed_inf (a < 0))"
| "jmul PInf (Fin b) = (if b = 0 then NaN else signed_inf (0 < b))"
| "jmul NInf (Fin b) = (if b = 0 then NaN else signed_inf (b < 0))"
| "jmul PInf PInf = PInf"
| "jmul NInf NInf = PInf"
| "jmul PInf NInf = NInf"
| "jmul NInf PInf = NInf"

fun jdiv :: "jsnum \<Rightarrow> jsnum \<Rightarrow> jsnum" where
  "jdiv (Fin a) (Fin b) =
     (if b = 0 then (if a = 0 then NaN else signed_inf (0 < a)) else finite64 (a / b))"
| "jdiv NaN _ = NaN"
| "jdiv _ NaN = NaN"
| "jdiv (Fin a) PInf = Fin 0"
| "jdiv (Fin a) NInf = Fin 0"
| "jdiv PInf (Fin b) = signed_inf (0 \<le> b)"
| "jdiv NInf (Fin b) = signed_inf (b < 0)"
| "jdiv PInf PInf = NaN"
| "jdiv PInf NInf = NaN"
| "jdiv NInf PInf = NaN"
| "jdiv NInf NInf = NaN"

text \<open>\<^verbatim>\<open>a === b\<close> and \<^verbatim>\<open>a >= b\<close>, \<^verbatim>\<open>a > b\<close> on numbers: every comparison with NaN is false.\<close>

definition jeq :: "jsnum \<Rightarrow> jsnum \<Rightarrow> bool" where
  "jeq a b = (a \<noteq> NaN \<and> a = b)"

fun jgt :: "jsnum \<Rightarrow> jsnum \<Rightarrow> bool" where
  "jgt (Fin a) (Fin b) = (b < a)"
| "jgt NaN _ = False"
| "jgt _ NaN = False"
| "jgt PInf PInf = False"
| "jgt PInf _ = True"
| "jgt NInf _ = False"
| "jgt (Fin a) PInf = False"
| "jgt (Fin a) NInf = True"

definition jge :: "jsnum \<Rightarrow> jsnum \<Rightarrow> bool" where
  "jge a b = (jgt a b \<or> jeq a b)"

subsection \<open>Number.prototype.toFixed(1)\<close>

definition digit_char :: "nat \<Rightarrow> char" where
  "digit_char d = char_of (48 + d)"

fun decimal :: "nat \<Rightarrow> string" where
  "decimal n = (if n < 10 then [digit_char n] else decimal (n div 10) @ [digit_char (n mod 10)])"

declare decimal.simps [simp del]

text \<open>
  Number-to-string for a double \<open>x \<ge> 10^21\<close> (an integer): the shortest digit string
  \<open>s\<close>, of \<open>k\<close> digits, such that \<open>s * 10^(n - k)\<close> rounds to \<open>x\<close>, the closest to \<open>x\<close> if
  there are two, written in exponent notation. Seventeen digits always suffice.
\<close>

fun shortest_digits :: "rat \<Rightarrow> nat \<Rightarrow> nat list \<Rightarrow> (nat \<times> nat) option" where
  "shortest_digits x n [] = None"
| "shortest_digits x n (k # ks) =
     (let q = 10 ^ (n - k);
          s0 = nat \<lfloor>x\<rfloor> div q;
          lo = of_nat (s0 * q);
          hi = of_nat ((s0 + 1) * q);
          lo_ok = (round64 lo = x);
          hi_ok = (round64 hi = x)
      in if lo_ok \<and> hi_ok
         then Some (k, if x - lo < hi - x then s0
                       else if hi - x < x - lo then s0 + 1
                       else if even s0 then s0 else s0 + 1)
         else if lo_ok then Some (k, s0)
         else if hi_ok then Some (k, s0 + 1)
         else shortest_digits x n ks)"

definition toExponent :: "rat \<Rightarrow> string" where
  "toExponent x =
     (let n = length (decimal (nat \<lfloor>x\<rfloor>))
      in case shortest_digits x n [1 ..< 18] of
           None \<Rightarrow> decimal (nat \<lfloor>x\<rfloor>)
         | Some (k, s) \<Rightarrow>
             let ds = (if s = 10 ^ k then ''1'' else decimal s);
                 ex = (if s = 10 ^ k then n else n - 1)
             in (if length ds = 1 then ds else take 1 ds @ ''.'' @ drop 1 ds)
                @ ''e+'' @ decimal ex)"

text \<open>
  \<^verbatim>\<open>x.toFixed(1)\<close>: the sign; then, below \<open>10^21\<close>, the integer \<open>n\<close> with \<open>n / 10\<close> nearest
  to \<open>|x|\<close> (the larger one on a tie), written with one digit after the point, and from
  \<open>10^21\<close> on the number-to-string form.
\<close>

fun toFixed1 :: "jsnum \<Rightarrow> string" where
  "toFixed1 NaN = ''NaN''"
| "toFixed1 PInf = ''Infinity''"
| "toFixed1 NInf = ''-Infinity''"
| "toFixed1 (Fin x) =
     (if x < 0 then ''-'' else []) @
     (if 10 ^ 21 \<le> \<bar>x\<bar> then toExponent \<bar>x\<bar>
      else let n = nat \<lfloor>\<bar>x\<bar> * 10 + 1 / 2\<rfloor>
           in decimal (n div 10) @ ''.'' @ decimal (n mod 10))"

subsection \<open>Array.prototype.sort with a comparator\<close>

text \<open>
  The sort is stable; \<open>cmp a b > 0\<close> puts \<open>a\<close> after \<open>b\<close>, and a comparator result of
  NaN counts as \<open>0\<close>.
\<close>

fun js_insert :: "('a \<Rightarrow> 'a \<Rightarrow> jsnum) \<Rightarrow> 'a \<Rightarrow> 'a list \<Rightarrow> 'a list" where
  "js_insert cmp x [] = [x]"
| "js_insert cmp x (y # ys) =
     (if jgt (cmp x y) (Fin 0) then y # js_insert cmp x ys else x # y # ys)"

definition js_sort :: "('a \<Rightarrow> 'a \<Rightarrow> jsnum) \<Rightarrow> 'a list \<Rightarrow> 'a list" where
  "js_sort cmp xs = foldr (js_insert cmp) xs []"

section \<open>The stored data (prisma/schema.prisma)\<close>

text \<open>
  Rows keep the columns the prediction market reads or writes. Times are milliseconds
  since the epoch; a nullable column is an \<open>option\<close>. A table is the list of its rows in
  the order in which an unordered query returns them.
\<close>

record prediction =
  pred_id :: string
  userId :: string
  pollId :: string
  optionId :: string
  confidence :: rat
  reasoning :: "string option"
  points :: int
  payout :: "int option"
  isResolved :: bool
  createdAt :: int
  resolvedAt :: "int option"

record poll =
  poll_id :: string
  expiresAt :: "int option"
  poll_resolvedAt :: "int option"
  resolutionResult :: "string option"
  resolutionSource :: "string option"
  isActive :: bool

record pollOption =
  option_id :: string
  option_pollId :: string
  orderIndex :: int

record user =
  user_id :: string
  reputation :: int

text \<open>
  \<^verbatim>\<open>voteSnapshot\<close> is read by \<^verbatim>\<open>calculateVolatility\<close> and declared in
  shared/database-schema.md only; these are the three columns the service uses.
\<close>

record voteSnapshot =
  snap_pollId :: string
  snapshotDate :: int
  percentage :: rat

record db =
  polls :: "poll list"
  pollOptions :: "pollOption list"
  predictions :: "prediction list"
  users :: "user list"
  voteSnapshots :: "voteSnapshot list"

text \<open>
  The constants of the service. A decimal literal denotes the double nearest to it.
\<close>

datatype error =
    ConfidenceOutOfRange
  | PointsOutOfRange
  | PollNotActive
  | PollExpired
  | PollNotFound
  | PollAlreadyResolved

definition HOUSE_EDGE :: rat where "HOUSE_EDGE = round64 (5 / 100)"
definition MIN_PREDICTION :: int where "MIN_PREDICTION = 1"
definition MAX_PREDICTION :: int where "MAX_PREDICTION = 1000"
definition CONFIDENCE_WEIGHT :: rat where "CONFIDENCE_WEIGHT = round64 (7 / 10)"
definition VOLUME_WEIGHT :: rat where "VOLUME_WEIGHT = round64 (3 / 10)"

subsection \<open>Queries and updates of the store\<close>

definition findPoll :: "db \<Rightarrow> string \<Rightarrow> poll option" where
  "findPoll d pid = find (\<lambda>p. poll_id p = pid) (polls d)"

definition findPrediction :: "db \<Rightarrow> string \<Rightarrow> prediction option" where
  "findPrediction d i = find (\<lambda>p. pred_id p = i) (predictions d)"

definition findUser :: "db \<Rightarrow> string \<Rightarrow> user option" where
  "findUser d uid = find (\<lambda>u. user_id u = uid) (users d)"

text \<open>\<^verbatim>\<open>poll.predictions\<close> with \<^verbatim>\<open>where: { isResolved: false }\<close>.\<close>

definition unresolvedPredictions :: "db \<Rightarrow> string \<Rightarrow> prediction list" where
  "unresolvedPredictions d pid =
     filter (\<lambda>p. pollId p = pid \<and> \<not> isResolved p) (predictions d)"

text \<open>\<^verbatim>\<open>prisma.prediction.update({ where: { id }, data })\<close>: the row with that id is rewritten.\<close>

definition updatePrediction :: "db \<Rightarrow> string \<Rightarrow> (prediction \<Rightarrow> prediction) \<Rightarrow> db" where
  "updatePrediction d i f =
     d\<lparr>predictions := map (\<lambda>p. if pred_id p = i then f p else p) (predictions d)\<rparr>"

definition updatePoll :: "db \<Rightarrow> string \<Rightarrow> (poll \<Rightarrow> poll) \<Rightarrow> db" where
  "updatePoll d pid f =
     d\<lparr>polls := map (\<lambda>p. if poll_id p = pid then f p else p) (polls d)\<rparr>"

section \<open>Resolution (resolvePoll, updateUserReputation)\<close>

text \<open>
  \<^verbatim>\<open>userId\<close> is a foreign key into the users table, so the update finds its row; the
  increment is applied to the row with that id.
\<close>

text \<open>
  The reputation delta is the one quantity kept in exact arithmetic: no statement about
  payouts, odds or rankings depends on it, and the statement about a loser's reputation
  is for stakes of any size.
\<close>

definition reputationChange :: "rat \<Rightarrow> rat \<Rightarrow> int" where
  "reputationChange pointChange conf = \<lfloor>pointChange * (1 / 10) * (1 + conf)\<rfloor>"

definition updateUserReputation :: "db \<Rightarrow> string \<Rightarrow> rat \<Rightarrow> rat \<Rightarrow> db" where
  "updateUserReputation d uid pointChange conf =
     d\<lparr>users := map (\<lambda>u. if user_id u = uid
                           then u\<lparr>reputation := reputation u + reputationChange pointChange conf\<rparr>
                           else u) (users d)\<rparr>"

definition totalPoints :: "prediction list \<Rightarrow> int" where
  "totalPoints ps = (\<Sum>pred\<leftarrow>ps. points pred)"

definition finalPayout :: "int \<Rightarrow> int \<Rightarrow> prediction \<Rightarrow> int" where
  "finalPayout totalPool winningPool p =
     (let share = ddiv (of_int (points p)) (of_int winningPool);
          basePayout = dmul (dmul share (of_int totalPool)) (dsub 1 HOUSE_EDGE);
          confidenceBonus = dmul (confidence p) (round64 (1 / 10))
      in \<lfloor>dmul basePayout (dadd 1 confidenceBonus)\<rfloor>)"

text \<open>The update data \<^verbatim>\<open>{ payout, isResolved: true, resolvedAt: new Date() }\<close>.\<close>

definition resolvedWith :: "int \<Rightarrow> int \<Rightarrow> prediction \<Rightarrow> prediction" where
  "resolvedWith now v q = q\<lparr>payout := Some v, isResolved := True, resolvedAt := Some now\<rparr>"

definition payWinner :: "int \<Rightarrow> int \<Rightarrow> int \<Rightarrow> db \<Rightarrow> prediction \<Rightarrow> db" where
  "payWinner now totalPool winningPool d p =
     (let fp = finalPayout totalPool winningPool p;
          d1 = updatePrediction d (pred_id p) (resolvedWith now fp)
      in updateUserReputation d1 (userId p) (of_int fp) (confidence p))"

definition markLoser :: "int \<Rightarrow> db \<Rightarrow> prediction \<Rightarrow> db" where
  "markLoser now d p =
     (let d1 = updatePrediction d (pred_id p) (resolvedWith now 0)
      in updateUserReputation d1 (userId p) (- of_int (points p) * (1 / 10)) 0)"

text \<open>
  The result is the outcome together with the store as the call leaves it (the source
  runs no transaction). \<open>now\<close> is the clock read by \<^verbatim>\<open>new Date()\<close>. The notification
  rows written at the end go to a table that no operation here reads.
\<close>

definition resolvePoll ::
  "int \<Rightarrow> db \<Rightarrow> string \<Rightarrow> string \<Rightarrow> string \<Rightarrow> (error + unit) \<times> db" where
  "resolvePoll now d pid winningOptionId source =
     (case findPoll d pid of
        None \<Rightarrow> (Inl PollNotFound, d)
      | Some poll \<Rightarrow>
          if poll_resolvedAt poll \<noteq> None then (Inl PollAlreadyResolved, d)
          else
            let preds = unresolvedPredictions d pid;
                d1 = updatePoll d pid
                       (\<lambda>q. q\<lparr>poll_resolvedAt := Some now,
                               resolutionResult := Some winningOptionId,
                               resolutionSource := Some source,
                               isActive := False\<rparr>);
                totalPool = totalPoints preds;
                winningPredictions = filter (\<lambda>pred. optionId pred = winningOptionId) preds;
                winningPool = totalPoints winningPredictions
            in if winningPool = 0 then (Inr (), d1)
               else
                 let d2 = foldl (payWinner now totalPool winningPool) d1 winningPredictions;
                     losingPredictions = filter (\<lambda>pred. optionId pred \<noteq> winningOptionId) preds;
                     d3 = foldl (markLoser now) d2 losingPredictions
                 in (Inr (), d3))"

section \<open>Market odds (getMarketOdds)\<close>

datatype trend = Up | Down | Stable

text \<open>
  One entry of the result. The display label \<^verbatim>\<open>option\<close>, read from the translations
  table, is left out.
\<close>

record marketOdds =
  mo_optionId :: string
  probability :: jsnum
  impliedOdds :: string
  volume :: int
  mo_trend :: trend
  mo_confidence :: rat

definition calculateWeightedConfidence :: "prediction list \<Rightarrow> rat" where
  "calculateWeightedConfidence preds =
     (if length preds = 0 then 0
      else let totalWeight = (\<Sum>pred\<leftarrow>preds. points pred)
           in if totalWeight = 0 then 0
              else ddiv (dsum (\<lambda>pred. dmul (confidence pred) (of_int (points pred))) preds)
                     (of_int totalWeight))"

definition calculateMarketProbability :: "prediction list \<Rightarrow> int \<Rightarrow> rat" where
  "calculateMarketProbability preds totalVolume =
     (if length preds = 0 \<or> totalVolume = 0 then 0
      else let optionVolume = (\<Sum>pred\<leftarrow>preds. points pred);
               weightedConfidence = calculateWeightedConfidence preds;
               volumeShare = ddiv (of_int optionVolume) (of_int totalVolume)
           in dadd (dmul volumeShare VOLUME_WEIGHT) (dmul weightedConfidence CONFIDENCE_WEIGHT))"

definition calculateTrend :: "int \<Rightarrow> db \<Rightarrow> string \<Rightarrow> trend" where
  "calculateTrend now d oid =
     (let recentPredictions =
            sort_key createdAt
              (filter (\<lambda>p. optionId p = oid \<and> now - 24 * 60 * 60 * 1000 \<le> createdAt p)
                 (predictions d))
      in if length recentPredictions < 2 then Stable
         else
           let half = length recentPredictions div 2;
               firstHalf = take half recentPredictions;
               secondHalf = drop half recentPredictions;
               firstAvg = ddiv (dsum confidence firstHalf) (of_nat (length firstHalf));
               secondAvg = ddiv (dsum confidence secondHalf) (of_nat (length secondHalf));
               threshold = round64 (5 / 100)
           in if secondAvg > dadd firstAvg threshold then Up
              else if secondAvg < dsub firstAvg threshold then Down
              else Stable)"

text \<open>The infinity sign U+221E, as its three UTF-8 bytes.\<close>

definition INFINITY_SIGN :: string where
  "INFINITY_SIGN = [CHR 0xE2, CHR 0x88, CHR 0x9E]"

definition formatOdds :: "jsnum \<Rightarrow> string" where
  "formatOdds p =
     (if jeq p (Fin 0) then INFINITY_SIGN @ '':1''
      else if jeq p (Fin 1) then ''1:'' @ INFINITY_SIGN
      else let odds = jsub (jdiv (Fin 1) p) (Fin 1)
           in if jge odds (Fin 1) then toFixed1 odds @ '':1''
              else ''1:'' @ toFixed1 (jdiv (Fin 1) odds))"

text \<open>\<^verbatim>\<open>poll.options\<close>, and \<^verbatim>\<open>option.predictions\<close> with \<^verbatim>\<open>where: { isResolved: false }\<close>.\<close>

definition optionsOf :: "db \<Rightarrow> string \<Rightarrow> pollOption list" where
  "optionsOf d pid = filter (\<lambda>opt. option_pollId opt = pid) (pollOptions d)"

definition optionPredictions :: "db \<Rightarrow> string \<Rightarrow> prediction list" where
  "optionPredictions d oid = filter (\<lambda>p. optionId p = oid \<and> \<not> isResolved p) (predictions d)"

definition marketVolume :: "db \<Rightarrow> string \<Rightarrow> int" where
  "marketVolume d pid =
     (\<Sum>opt\<leftarrow>optionsOf d pid. \<Sum>pred\<leftarrow>optionPredictions d (option_id opt). points pred)"

text \<open>The entry pushed for one option, before the normalisation.\<close>

definition rawOdds :: "int \<Rightarrow> db \<Rightarrow> int \<Rightarrow> pollOption \<Rightarrow> marketOdds" where
  "rawOdds now d totalVolume opt =
     (let preds = optionPredictions d (option_id opt);
          vol = (\<Sum>pred\<leftarrow>preds. points pred);
          weightedConfidence = calculateWeightedConfidence preds;
          prob = Fin (calculateMarketProbability preds totalVolume);
          tr = calculateTrend now d (option_id opt)
      in \<lparr>mo_optionId = option_id opt, probability = prob, impliedOdds = formatOdds prob,
          volume = vol, mo_trend = tr, mo_confidence = weightedConfidence\<rparr>)"

definition normalize :: "jsnum \<Rightarrow> marketOdds \<Rightarrow> marketOdds" where
  "normalize normalizationFactor odds =
     (let p = jmul (probability odds) normalizationFactor
      in odds\<lparr>probability := p, impliedOdds := formatOdds p\<rparr>)"

definition sumProbability :: "marketOdds list \<Rightarrow> jsnum" where
  "sumProbability ms = foldl (\<lambda>sum odds. jadd sum (probability odds)) (Fin 0) ms"

definition getMarketOdds :: "int \<Rightarrow> db \<Rightarrow> string \<Rightarrow> error + marketOdds list" where
  "getMarketOdds now d pid =
     (case findPoll d pid of
        None \<Rightarrow> Inl PollNotFound
      | Some poll \<Rightarrow>
          let totalVolume = marketVolume d pid;
              marketOdds = map (rawOdds now d totalVolume) (optionsOf d pid);
              totalProb = sumProbability marketOdds;
              normalizationFactor = jdiv (Fin (dsub 1 HOUSE_EDGE)) totalProb;
              normalized = map (normalize normalizationFactor) marketOdds
          in Inr (js_sort (\<lambda>a b. jsub (probability b) (probability a)) normalized))"

section \<open>Market analytics (getMarketAnalytics)\<close>

record marketAnalytics =
  totalVolume :: int
  uniquePredictors :: nat
  averageConfidence :: rat
  consensusProbability :: jsnum
  marketEfficiency :: rat
  volatility :: rat
  liquidityIndex :: rat

text \<open>\<^verbatim>\<open>pred.user.reputation\<close>: the joined user row (\<^verbatim>\<open>userId\<close> is a foreign key).\<close>

definition userReputation :: "db \<Rightarrow> string \<Rightarrow> int" where
  "userReputation d uid = (case findUser d uid of Some u \<Rightarrow> reputation u | None \<Rightarrow> 0)"

definition calculateConsensus :: "db \<Rightarrow> prediction list \<Rightarrow> jsnum" where
  "calculateConsensus d preds =
     (if length preds = 0 then Fin 0
      else
        let weight = (\<lambda>pred. dadd 1 (ddiv (of_int (userReputation d (userId pred))) 1000));
            totalWeight = dsum (\<lambda>pred. dmul (of_int (points pred)) (weight pred)) preds
        in jdiv
             (Fin (dsum (\<lambda>pred. dmul (dmul (confidence pred) (of_int (points pred))) (weight pred))
                     preds))
             (Fin totalWeight))"

text \<open>\<^verbatim>\<open>Math.pow(x, 2)\<close> is the rounded product \<open>x * x\<close>.\<close>

definition calculateMarketEfficiency :: "prediction list \<Rightarrow> rat" where
  "calculateMarketEfficiency preds =
     (if length preds < 2 then 1
      else
        let confidences = map confidence preds;
            mean = ddiv (dsum (\<lambda>conf. conf) confidences) (of_nat (length confidences));
            variance = ddiv (dsum (\<lambda>conf. dmul (dsub conf mean) (dsub conf mean)) confidences)
                         (of_nat (length confidences))
        in max 0 (dsub 1 (dmul variance 4)))"

definition calculateVolatility :: "db \<Rightarrow> string \<Rightarrow> rat" where
  "calculateVolatility d pid =
     (let snapshots =
            take 10 (sort_key snapshotDate (filter (\<lambda>s. snap_pollId s = pid) (voteSnapshots d)))
      in if length snapshots < 2 then 0
         else
           let percentageChanges =
                 map (\<lambda>i. \<bar>dsub (percentage (snapshots ! i)) (percentage (snapshots ! (i - 1)))\<bar>)
                   [1 ..< length snapshots]
           in ddiv (dsum (\<lambda>change. change) percentageChanges)
                (of_nat (length percentageChanges)))"

definition calculateLiquidityIndex :: "int \<Rightarrow> nat \<Rightarrow> rat" where
  "calculateLiquidityIndex vol predictors =
     (let volumeScore = min (ddiv (of_int vol) 10000) 1;
          predictorScore = min (ddiv (of_nat predictors) 100) 1
      in ddiv (dadd volumeScore predictorScore) 2)"

definition getMarketAnalytics :: "db \<Rightarrow> string \<Rightarrow> marketAnalytics" where
  "getMarketAnalytics d pid =
     (let preds = unresolvedPredictions d pid;
          totalVol = (\<Sum>pred\<leftarrow>preds. points pred);
          predictors = length (remdups (map userId preds));
          avgConfidence =
            (if length preds > 0
             then ddiv (dsum confidence preds) (of_nat (length preds)) else 0)
      in \<lparr>totalVolume = totalVol,
          uniquePredictors = predictors,
          averageConfidence = avgConfidence,
          consensusProbability = calculateConsensus d preds,
          marketEfficiency = calculateMarketEfficiency preds,
          volatility = calculateVolatility d pid,
          liquidityIndex = calculateLiquidityIndex totalVol predictors\<rparr>)"

section \<open>Leaderboard (getLeaderboard)\<close>

datatype timeframe = Daily | Weekly | Monthly | All

fun getTimeframeStart :: "int \<Rightarrow> timeframe \<Rightarrow> int option" where
  "getTimeframeStart now Daily = Some (now - 24 * 60 * 60 * 1000)"
| "getTimeframeStart now Weekly = Some (now - 7 * 24 * 60 * 60 * 1000)"
| "getTimeframeStart now Monthly = Some (now - 30 * 24 * 60 * 60 * 1000)"
| "getTimeframeStart now All = None"

text \<open>\<^verbatim>\<open>createdAt: startDate ? { gte: startDate } : undefined\<close>\<close>

definition inScope :: "int option \<Rightarrow> prediction \<Rightarrow> bool" where
  "inScope startDate p = (case startDate of None \<Rightarrow> True | Some s \<Rightarrow> s \<le> createdAt p)"

text \<open>\<^verbatim>\<open>pred.payout || 0\<close>\<close>

definition payoutOrZero :: "prediction \<Rightarrow> int" where
  "payoutOrZero p = (case payout p of None \<Rightarrow> 0 | Some v \<Rightarrow> v)"

text \<open>\<^verbatim>\<open>Math.round\<close>: the nearest integer, the larger one on a tie.\<close>

definition js_round :: "rat \<Rightarrow> int" where
  "js_round x = \<lfloor>x + 1 / 2\<rfloor>"

text \<open>One row of the board (name and avatar, which are display data, are left out).\<close>

record leaderboardEntry =
  lb_userId :: string
  lb_reputation :: int
  totalPredictions :: nat
  totalPayout :: int
  totalStake :: int
  netProfit :: int
  winRate :: int
  roi :: rat

definition leaderboardRow :: "db \<Rightarrow> int option \<Rightarrow> user \<Rightarrow> leaderboardEntry" where
  "leaderboardRow d startDate u =
     (let preds = filter (\<lambda>p. userId p = user_id u \<and> isResolved p \<and> inScope startDate p)
                    (predictions d);
          cnt = length (filter (\<lambda>p. userId p = user_id u \<and> inScope startDate p) (predictions d));
          payoutSum = (\<Sum>pred\<leftarrow>preds. payoutOrZero pred);
          stakeSum = (\<Sum>pred\<leftarrow>preds. points pred);
          rate = (if length preds > 0
                  then ddiv (of_nat (length (filter (\<lambda>pred. payoutOrZero pred > 0) preds)))
                         (of_nat (length preds))
                  else 0);
          r = (if stakeSum > 0
               then dmul (ddiv (of_int (payoutSum - stakeSum)) (of_int stakeSum)) 100 else 0)
      in \<lparr>lb_userId = user_id u, lb_reputation = reputation u, totalPredictions = cnt,
          totalPayout = payoutSum, totalStake = stakeSum, netProfit = payoutSum - stakeSum,
          winRate = js_round (dmul rate 100), roi = ddiv (of_int (js_round (dmul r 100))) 100\<rparr>)"

text \<open>
  \<^verbatim>\<open>prisma.user.findMany({ where, include, take: limit })\<close> returns the first \<open>limit\<close>
  users that have a prediction in scope; the rows computed from them are then sorted.
\<close>

definition getLeaderboard :: "int \<Rightarrow> db \<Rightarrow> timeframe \<Rightarrow> nat \<Rightarrow> leaderboardEntry list" where
  "getLeaderboard now d tf limit =
     (let startDate = getTimeframeStart now tf;
          found = take limit
                    (filter (\<lambda>u. list_ex (\<lambda>p. userId p = user_id u \<and> inScope startDate p) (predictions d))
                       (users d))
      in js_sort (\<lambda>a b. Fin (of_int (netProfit b - netProfit a)))
           (map (leaderboardRow d startDate) found))"

section \<open>Submitting a prediction (createPrediction)\<close>

record predictionPayload =
  pl_userId :: string
  pl_pollId :: string
  pl_optionId :: string
  pl_confidence :: rat
  pl_points :: int
  pl_reasoning :: "string option"

text \<open>
  The data of the update. \<^verbatim>\<open>reasoning\<close> is optional in the payload, and a field that is
  \<^verbatim>\<open>undefined\<close> in Prisma's update data is not written.
\<close>

definition overwrite :: "int \<Rightarrow> predictionPayload \<Rightarrow> prediction \<Rightarrow> prediction" where
  "overwrite now payload q =
     q\<lparr>optionId := pl_optionId payload,
       confidence := pl_confidence payload,
       points := pl_points payload,
       reasoning := (case pl_reasoning payload of None \<Rightarrow> reasoning q | Some r \<Rightarrow> Some r),
       createdAt := now\<rparr>"

text \<open>
  \<open>freshId\<close> is the uuid the database gives a new row. The calls that follow the write
  (poll analytics, achievements) touch tables that no operation here reads.
\<close>

definition createPrediction ::
  "int \<Rightarrow> string \<Rightarrow> db \<Rightarrow> predictionPayload \<Rightarrow> (error + prediction) \<times> db" where
  "createPrediction now freshId d payload =
     (if pl_confidence payload < 0 \<or> pl_confidence payload > 1
      then (Inl ConfidenceOutOfRange, d)
      else if pl_points payload < MIN_PREDICTION \<or> pl_points payload > MAX_PREDICTION
      then (Inl PointsOutOfRange, d)
      else
        case findPoll d (pl_pollId payload) of
          None \<Rightarrow> (Inl PollNotActive, d)
        | Some poll \<Rightarrow>
            if \<not> isActive poll then (Inl PollNotActive, d)
            else if (case expiresAt poll of None \<Rightarrow> False | Some e \<Rightarrow> e < now)
            then (Inl PollExpired, d)
            else
              case find (\<lambda>p. userId p = pl_userId payload \<and> pollId p = pl_pollId payload)
                     (predictions d) of
                Some existingPrediction \<Rightarrow>
                  (Inr (overwrite now payload existingPrediction),
                   updatePrediction d (pred_id existingPrediction) (overwrite now payload))
              | None \<Rightarrow>
                  let created =
                        \<lparr>pred_id = freshId, userId = pl_userId payload,
                         pollId = pl_pollId payload, optionId = pl_optionId payload,
                         confidence = pl_confidence payload, reasoning = pl_reasoning payload,
                         points = pl_points payload, payout = None, isResolved = False,
                         createdAt = now, resolvedAt = None\<rparr>
                  in (Inr created, d\<lparr>predictions := predictions d @ [created]\<rparr>))"

section \<open>Example stores\<close>

text \<open>
  The two-prediction market: a poll with the options A and B, userX staking 100 on A at
  confidence 0.9 and userY staking 50 on B at confidence 0.4.
\<close>

definition pred_x :: prediction where
  "pred_x = \<lparr>pred_id = ''px'', userId = ''userX'', pollId = ''P'', optionId = ''A'',
              confidence = round64 (9 / 10), reasoning = Some ''first thoughts'', points = 100,
              payout = None, isResolved = False, createdAt = 1000, resolvedAt = None\<rparr>"

definition pred_y :: prediction where
  "pred_y = \<lparr>pred_id = ''py'', userId = ''userY'', pollId = ''P'', optionId = ''B'',
              confidence = round64 (4 / 10), reasoning = None, points = 50,
              payout = None, isResolved = False, createdAt = 2000, resolvedAt = None\<rparr>"

definition poll_P :: poll where
  "poll_P = \<lparr>poll_id = ''P'', expiresAt = None, poll_resolvedAt = None,
              resolutionResult = None, resolutionSource = None, isActive = True\<rparr>"

definition scenario :: db where
  "scenario =
     \<lparr>polls = [poll_P],
      pollOptions = [\<lparr>option_id = ''A'', option_pollId = ''P'', orderIndex = 0\<rparr>,
                     \<lparr>option_id = ''B'', option_pollId = ''P'', orderIndex = 1\<rparr>],
      predictions = [pred_x, pred_y],
      users = [\<lparr>user_id = ''userY'', reputation = 500\<rparr>,
               \<lparr>user_id = ''userX'', reputation = 500\<rparr>],
      voteSnapshots = []\<rparr>"

text \<open>The same market after the poll was resolved in favour of A at time 5000.\<close>

definition resolved_scenario :: db where
  "resolved_scenario = snd (resolvePoll 5000 scenario ''P'' ''A'' ''admin'')"

text \<open>The market in which only userY has predicted (on B).\<close>

definition one_sided :: db where
  "one_sided = scenario\<lparr>predictions := [pred_y]\<rparr>"

text \<open>The market before anybody has predicted, with two daily vote snapshots of the poll.\<close>

definition quiet_market :: db where
  "quiet_market =
     scenario\<lparr>predictions := [],
              voteSnapshots := [\<lparr>snap_pollId = ''P'', snapshotDate = 1, percentage = 40\<rparr>,
                                \<lparr>snap_pollId = ''P'', snapshotDate = 2, percentage = 55\<rparr>]\<rparr>"

section \<open>Auxiliary notions for the proofs\<close>

text \<open>What one step of a settlement loop does to a single stored row \<open>q\<close>.\<close>

definition settleRow ::
  "(prediction \<Rightarrow> prediction \<Rightarrow> prediction) \<Rightarrow> prediction \<Rightarrow> prediction \<Rightarrow> prediction" where
  "settleRow upd q p = (if pred_id q = pred_id p then upd p q else q)"

text \<open>The row a successful resolution with winners leaves for a stored row \<open>q\<close>.\<close>

definition rowAfter :: "int \<Rightarrow> string \<Rightarrow> string \<Rightarrow> int \<Rightarrow> int \<Rightarrow> prediction \<Rightarrow> prediction" where
  "rowAfter now pid w tp wp q =
     (if pollId q = pid \<and> \<not> isResolved q
      then resolvedWith now (if optionId q = w then finalPayout tp wp q else 0) q
      else q)"

text \<open>\<^verbatim>\<open>rawProbability\<close> of an option: what calculateMarketProbability returns for it.\<close>

definition rawProbability :: "db \<Rightarrow> string \<Rightarrow> pollOption \<Rightarrow> rat" where
  "rawProbability d pid opt =
     calculateMarketProbability (optionPredictions d (option_id opt)) (marketVolume d pid)"

text \<open>The payout stored for the prediction with a given id (\<open>0\<close> while it has none).\<close>

definition storedPayout :: "db \<Rightarrow> string \<Rightarrow> int" where
  "storedPayout d i = (case findPrediction d i of Some q \<Rightarrow> payoutOrZero q | None \<Rightarrow> 0)"

section \<open>Rounding to a double\<close>

subsection \<open>Equations for evaluation\<close>

text \<open>The bit length of a numeral, integer powers of two and the rounding of a fraction,
  computed on integers.\<close>

lemma bitlen_numeral: "bitlen (numeral n) = num_bits n"
proof (induction n)
  case One
  have "bitlen 1 = bitlen (1 div 2) + 1"
    by (subst compute_bitlen) simp
  then show ?case by simp
next
  case (Bit0 n)
  have "bitlen (numeral (Num.Bit0 n)) = bitlen (numeral (Num.Bit0 n) div 2) + 1"
    by (subst compute_bitlen) simp
  then show ?case using Bit0 by simp
next
  case (Bit1 n)
  have "bitlen (numeral (Num.Bit1 n)) = bitlen (numeral (Num.Bit1 n) div 2) + 1"
    by (subst compute_bitlen) simp
  then show ?case using Bit1 by simp
qed

lemma bitlen_code [code]:
  "bitlen (Int.Pos n) = num_bits n" "bitlen (Int.Neg n) = 0" "bitlen 0 = 0"
  by (simp_all add: Int.Pos_def Int.Neg_def bitlen_numeral bitlen_eq_zero_iff)

lemma pow2_code [code]:
  "pow2 e = (if 0 \<le> e then of_int (2 ^ nat e) else Fract 1 (2 ^ nat (- e)))"
  by (simp add: pow2_def power_int_def Fract_of_int_quotient power_one_over inverse_eq_divide)

lemma rne_code [code]:
  "rne m =
     (let (a, b) = quotient_of m; q = a div b; r = a mod b
      in if 2 * r < b then q else if b < 2 * r then q + 1 else if even q then q else q + 1)"
proof -
  obtain a b where q: "quotient_of m = (a, b)" by (cases "quotient_of m")
  have b: "0 < b" and m: "m = of_int a / of_int b"
    using quotient_of_denom_pos [OF q] quotient_of_div [OF q] by auto
  have fl: "\<lfloor>m\<rfloor> = a div b"
    unfolding m by (simp add: floor_divide_of_int_eq)
  have d: "m - of_int (a div b) = of_int (a mod b) / of_int b"
    unfolding m using b by (simp add: field_simps flip: of_int_mult of_int_add)
  have "(of_int (a mod b) / rat_of_int b < 1 / 2) = (rat_of_int (2 * (a mod b)) < of_int b)"
    using b by (simp add: field_simps)
  then have lt: "(of_int (a mod b) / rat_of_int b < 1 / 2) = (2 * (a mod b) < b)"
    by (simp only: of_int_less_iff)
  have "(1 / 2 < of_int (a mod b) / rat_of_int b) = (rat_of_int b < of_int (2 * (a mod b)))"
    using b by (simp add: field_simps)
  then have gt: "(1 / 2 < of_int (a mod b) / rat_of_int b) = (b < 2 * (a mod b))"
    by (simp only: of_int_less_iff)
  show ?thesis
    unfolding rne_def Let_def q prod.case fl d lt gt ..
qed

subsection \<open>The rounding error\<close>

lemma powi_bitlen_bounds:
  assumes "0 < a"
  shows "(2::rat) powi (bitlen a - 1) \<le> of_int a" and "of_int a < (2::rat) powi bitlen a"
proof -
  have n: "0 \<le> bitlen a - 1" "0 \<le> bitlen a"
    using assms bitlen_bounds [OF assms] by (auto simp: bitlen_alt_def)
  have "(2::int) ^ nat (bitlen a - 1) \<le> a" "a < 2 ^ nat (bitlen a)"
    using bitlen_bounds [OF assms] by auto
  then have "rat_of_int (2 ^ nat (bitlen a - 1)) \<le> of_int a" "rat_of_int a < of_int (2 ^ nat (bitlen a))"
    by (simp_all only: of_int_le_iff of_int_less_iff)
  then show "(2::rat) powi (bitlen a - 1) \<le> of_int a" "of_int a < (2::rat) powi bitlen a"
    using n by (simp_all add: power_int_def)
qed

lemma ilog2_bounds:
  assumes "0 < x"
  shows "2 powi ilog2 x \<le> x" and "x < 2 powi (ilog2 x + 1)"
proof -
  obtain a b where q: "quotient_of x = (a, b)" by (cases "quotient_of x")
  have b: "0 < b" and x: "x = of_int a / of_int b"
    using quotient_of_denom_pos [OF q] quotient_of_div [OF q] by auto
  have a: "0 < a"
    using assms b unfolding x by (simp add: zero_less_divide_iff)
  define k where "k = bitlen a - bitlen b"
  have pb: "0 < (2::rat) powi bitlen b" "0 < (2::rat) powi (bitlen b - 1)"
    by (simp_all add: zero_less_power_int)
  have bpos: "0 < rat_of_int b" using b by simp
  have "2 powi (k - 1) = (2::rat) powi (bitlen a - 1) / 2 powi bitlen b"
    unfolding k_def by (simp add: power_int_diff [symmetric] algebra_simps)
  also have "\<dots> \<le> of_int a / 2 powi bitlen b"
    using powi_bitlen_bounds(1) [OF a] pb(1) by (simp add: divide_right_mono)
  also have "\<dots> < of_int a / of_int b"
    using powi_bitlen_bounds(2) [OF b] a bpos by (intro divide_strict_left_mono) simp_all
  finally have lo: "2 powi (k - 1) < x" unfolding x .
  have "x = of_int a / of_int b" by (rule x)
  also have "\<dots> < 2 powi bitlen a / of_int b"
    using powi_bitlen_bounds(2) [OF a] bpos by (simp add: divide_strict_right_mono)
  also have "\<dots> \<le> 2 powi bitlen a / 2 powi (bitlen b - 1)"
  proof (rule divide_left_mono)
    show "2 powi (bitlen b - 1) \<le> rat_of_int b" by (rule powi_bitlen_bounds(1) [OF b])
    show "0 \<le> (2::rat) powi bitlen a" by (simp add: less_imp_le zero_less_power_int)
    show "0 < rat_of_int b * 2 powi (bitlen b - 1)" using bpos pb(2) by (rule mult_pos_pos)
  qed
  also have "\<dots> = 2 powi (k + 1)"
    unfolding k_def by (simp add: power_int_diff [symmetric] algebra_simps)
  finally have hi: "x < 2 powi (k + 1)" .
  have il: "ilog2 x = (if 2 powi k \<le> x then k else k - 1)"
    by (simp add: ilog2_def q k_def pow2_def)
  show "2 powi ilog2 x \<le> x"
    using lo by (simp add: il)
  show "x < 2 powi (ilog2 x + 1)"
    using hi by (simp add: il not_le)
qed

lemma rne_error: "\<bar>of_int (rne m) - m\<bar> \<le> 1 / 2"
proof -
  have "of_int \<lfloor>m\<rfloor> \<le> m" "m < of_int \<lfloor>m\<rfloor> + 1"
    by linarith+
  then show ?thesis
    by (auto simp: rne_def Let_def abs_le_iff)
qed

lemma rne_nonneg: "0 \<le> m \<Longrightarrow> 0 \<le> rne m"
  by (auto simp: rne_def Let_def)

lemma round64_zero [simp]: "round64 0 = 0"
  by (simp add: round64_def)

lemma round64_nonneg: "0 \<le> x \<Longrightarrow> 0 \<le> round64 x"
  by (auto simp: round64_def Let_def pow2_def rne_nonneg zero_less_power_int
      intro!: mult_nonneg_nonneg less_imp_le)

lemma round64_error: "\<bar>round64 x - x\<bar> \<le> \<bar>x\<bar> / 2 ^ 53 + 1 / 2 ^ 1075"
proof (cases "x = 0")
  case True
  then show ?thesis by simp
next
  case False
  define e where "e = max (ilog2 \<bar>x\<bar> - 52) (- 1074)"
  define P :: rat where "P = 2 powi e"
  have P: "0 < P" by (simp add: P_def zero_less_power_int)
  have ax: "0 < \<bar>x\<bar>" using False by simp
  have r: "round64 x = sgn x * of_int (rne (\<bar>x\<bar> / P)) * P"
    using False by (simp add: round64_def Let_def e_def P_def pow2_def)
  have xs: "x = sgn x * (\<bar>x\<bar> / P) * P"
    using P by (simp add: mult_sgn_abs)
  have "round64 x - x = sgn x * (of_int (rne (\<bar>x\<bar> / P)) - \<bar>x\<bar> / P) * P"
    by (subst (2) xs, subst r) (simp add: algebra_simps)
  then have "\<bar>round64 x - x\<bar> = \<bar>of_int (rne (\<bar>x\<bar> / P)) - \<bar>x\<bar> / P\<bar> * P"
    using False P by (simp add: abs_mult abs_sgn_eq)
  also have "\<dots> \<le> 1 / 2 * P"
    using rne_error [of "\<bar>x\<bar> / P"] P by (intro mult_right_mono) simp_all
  finally have half: "\<bar>round64 x - x\<bar> \<le> P / 2" by simp
  have "P / 2 \<le> \<bar>x\<bar> / 2 ^ 53 + 1 / 2 ^ 1075"
  proof (cases "ilog2 \<bar>x\<bar> - 52 \<le> - 1074")
    case True
    then have "e = - 1074" by (simp add: e_def)
    then have "P = 1 / 2 ^ 1074" by (simp add: P_def power_int_minus_divide)
    then have "P / 2 = 1 / 2 ^ 1075" by simp
    then show ?thesis using ax by simp
  next
    case False
    then have "e = ilog2 \<bar>x\<bar> - 52" by (simp add: e_def)
    then have "P = 2 powi ilog2 \<bar>x\<bar> / 2 ^ 52"
      by (simp add: P_def power_int_diff)
    also have "\<dots> \<le> \<bar>x\<bar> / 2 ^ 52"
      using ilog2_bounds(1) [OF ax] by (simp add: divide_right_mono)
    finally have "P / 2 \<le> \<bar>x\<bar> / 2 ^ 53" by simp
    then show ?thesis by simp
  qed
  with half show ?thesis by simp
qed

section \<open>The rows a resolution rewrites\<close>

lemma pred_id_resolvedWith [simp]: "pred_id (resolvedWith now v q) = pred_id q"
  by (simp add: resolvedWith_def)

lemma predictions_payWinner:
  "predictions (payWinner now tp wp d p) =
     map (\<lambda>q. settleRow (\<lambda>p. resolvedWith now (finalPayout tp wp p)) q p) (predictions d)"
  by (simp add: payWinner_def Let_def updateUserReputation_def updatePrediction_def settleRow_def)

lemma predictions_markLoser:
  "predictions (markLoser now d p) =
     map (\<lambda>q. settleRow (\<lambda>p. resolvedWith now 0) q p) (predictions d)"
  by (simp add: markLoser_def Let_def updateUserReputation_def updatePrediction_def settleRow_def)

lemma predictions_foldl_payWinner:
  "predictions (foldl (payWinner now tp wp) d ps) =
     map (\<lambda>q. foldl (settleRow (\<lambda>p. resolvedWith now (finalPayout tp wp p))) q ps) (predictions d)"
  by (induction ps arbitrary: d) (simp_all add: predictions_payWinner o_def)

lemma predictions_foldl_markLoser:
  "predictions (foldl (markLoser now) d ps) =
     map (\<lambda>q. foldl (settleRow (\<lambda>p. resolvedWith now 0)) q ps) (predictions d)"
  by (induction ps arbitrary: d) (simp_all add: predictions_markLoser o_def)

lemma foldl_settleRow_other:
  "\<forall>p \<in> set ps. pred_id p \<noteq> pred_id q \<Longrightarrow> foldl (settleRow upd) q ps = q"
  by (induction ps) (auto simp: settleRow_def)

lemma foldl_settleRow_hit:
  assumes "\<forall>p \<in> set ps. pred_id p = pred_id q \<longrightarrow> p = q"
    and "q \<in> set ps"
    and "\<And>a. pred_id (upd q a) = pred_id a"
    and "\<And>a. upd q (upd q a) = upd q a"
  shows "foldl (settleRow upd) q ps = upd q q"
proof -
  have gen: "\<forall>p \<in> set xs. pred_id p = pred_id q \<longrightarrow> p = q \<Longrightarrow>
      acc = q \<or> acc = upd q q \<Longrightarrow>
      foldl (settleRow upd) acc xs = (if q \<in> set xs then upd q q else acc)" for xs acc
  proof (induction xs arbitrary: acc)
    case Nil
    then show ?case by simp
  next
    case (Cons x xs)
    show ?case
    proof (cases "pred_id x = pred_id q")
      case True
      with Cons.prems have xq: "x = q" by simp
      have step: "settleRow upd acc x = upd q q"
        using Cons.prems(2) xq assms(3,4) by (auto simp: settleRow_def)
      have "foldl (settleRow upd) (upd q q) xs = (if q \<in> set xs then upd q q else upd q q)"
        using Cons.IH [of "upd q q"] Cons.prems(1) by simp
      then show ?thesis using step xq by simp
    next
      case False
      then have "x \<noteq> q" by auto
      moreover have "settleRow upd acc x = acc"
        using False Cons.prems(2) assms(3) by (auto simp: settleRow_def)
      ultimately show ?thesis using Cons.IH [of acc] Cons.prems by simp
    qed
  qed
  from gen [of ps q] assms(1,2) show ?thesis by simp
qed


lemma find_map_pred_id:
  assumes "\<And>q. pred_id (g q) = pred_id q"
  shows "find (\<lambda>p. pred_id p = i) (map g xs) = map_option g (find (\<lambda>p. pred_id p = i) xs)"
  by (induction xs) (simp_all add: assms)

lemma find_distinct_member:
  "distinct (map pred_id xs) \<Longrightarrow> q \<in> set xs \<Longrightarrow> find (\<lambda>p. pred_id p = pred_id q) xs = Some q"
  by (induction xs) (auto simp: image_iff)

lemma same_id_same_row:
  "distinct (map pred_id xs) \<Longrightarrow> p \<in> set xs \<Longrightarrow> q \<in> set xs \<Longrightarrow> pred_id p = pred_id q \<Longrightarrow> p = q"
  by (meson distinct_map inj_onD)

lemma predictions_updatePoll [simp]: "predictions (updatePoll d pid f) = predictions d"
  by (simp add: updatePoll_def)

lemma users_updatePoll [simp]: "users (updatePoll d pid f) = users d"
  by (simp add: updatePoll_def)

lemma resolvePoll_settled:
  assumes poll: "findPoll d pid = Some poll" "poll_resolvedAt poll = None"
    and wp: "wp = totalPoints (filter (\<lambda>p. optionId p = w) (unresolvedPredictions d pid))"
    and tp: "tp = totalPoints (unresolvedPredictions d pid)"
    and nz: "wp \<noteq> 0"
  shows "resolvePoll now d pid w src =
     (Inr (), foldl (markLoser now)
        (foldl (payWinner now tp wp)
           (updatePoll d pid (\<lambda>q. q\<lparr>poll_resolvedAt := Some now, resolutionResult := Some w,
                               resolutionSource := Some src, isActive := False\<rparr>))
           (filter (\<lambda>p. optionId p = w) (unresolvedPredictions d pid)))
        (filter (\<lambda>p. optionId p \<noteq> w) (unresolvedPredictions d pid)))"
  using poll nz unfolding wp tp by (simp add: resolvePoll_def Let_def)

lemma resolvePoll_predictions:
  assumes poll: "findPoll d pid = Some poll" "poll_resolvedAt poll = None"
    and wp: "wp = totalPoints (filter (\<lambda>p. optionId p = w) (unresolvedPredictions d pid))"
    and tp: "tp = totalPoints (unresolvedPredictions d pid)"
    and nz: "wp \<noteq> 0"
    and dist: "distinct (map pred_id (predictions d))"
  shows "predictions (snd (resolvePoll now d pid w src)) =
           map (rowAfter now pid w tp wp) (predictions d)"
proof -
  let ?W = "filter (\<lambda>p. optionId p = w) (unresolvedPredictions d pid)"
  let ?L = "filter (\<lambda>p. optionId p \<noteq> w) (unresolvedPredictions d pid)"
  let ?win = "settleRow (\<lambda>p. resolvedWith now (finalPayout tp wp p))"
  let ?lose = "settleRow (\<lambda>p. resolvedWith now 0)"
  have row: "foldl ?lose (foldl ?win q ?W) ?L = rowAfter now pid w tp wp q"
    if q: "q \<in> set (predictions d)" for q
  proof -
    have subW: "set ?W \<subseteq> set (predictions d)" and subL: "set ?L \<subseteq> set (predictions d)"
      by (auto simp: unresolvedPredictions_def)
    have uniq: "p = q" if "p \<in> set (predictions d)" "pred_id p = pred_id q" for p
      using same_id_same_row [OF dist that(1) q that(2)] .
    consider (win) "q \<in> set ?W" | (lose) "q \<in> set ?L" | (out) "q \<notin> set ?W" "q \<notin> set ?L"
      by blast
    then show ?thesis
    proof cases
      case win
      have "foldl ?win q ?W = resolvedWith now (finalPayout tp wp q) q"
        by (rule foldl_settleRow_hit) (use win subW uniq in \<open>auto simp: resolvedWith_def\<close>)
      moreover have "foldl ?lose (resolvedWith now (finalPayout tp wp q) q) ?L
          = resolvedWith now (finalPayout tp wp q) q"
      proof (rule foldl_settleRow_other, rule ballI)
        fix p assume p: "p \<in> set ?L"
        show "pred_id p \<noteq> pred_id (resolvedWith now (finalPayout tp wp q) q)"
        proof
          assume "pred_id p = pred_id (resolvedWith now (finalPayout tp wp q) q)"
          then have "p = q" using uniq p subL by auto
          with p win show False by auto
        qed
      qed
      ultimately show ?thesis using win
        by (auto simp: rowAfter_def unresolvedPredictions_def)
    next
      case lose
      have "foldl ?win q ?W = q"
      proof (rule foldl_settleRow_other, rule ballI)
        fix p assume p: "p \<in> set ?W"
        show "pred_id p \<noteq> pred_id q"
        proof
          assume "pred_id p = pred_id q"
          then have "p = q" using uniq p subW by auto
          with p lose show False by auto
        qed
      qed
      moreover have "foldl ?lose q ?L = resolvedWith now 0 q"
        by (rule foldl_settleRow_hit) (use lose subL uniq in \<open>auto simp: resolvedWith_def\<close>)
      ultimately show ?thesis using lose
        by (auto simp: rowAfter_def unresolvedPredictions_def)
    next
      case out
      have nW: "\<forall>p \<in> set ?W. pred_id p \<noteq> pred_id q"
        using uniq subW out(1) by blast
      have nL: "\<forall>p \<in> set ?L. pred_id p \<noteq> pred_id q"
        using uniq subL out(2) by blast
      have "foldl ?lose (foldl ?win q ?W) ?L = q"
        by (simp add: foldl_settleRow_other [OF nW] foldl_settleRow_other [OF nL])
      then show ?thesis using out q
        by (auto simp: rowAfter_def unresolvedPredictions_def)
    qed
  qed
  show ?thesis
    unfolding resolvePoll_settled [OF poll wp tp nz]
    by (simp add: predictions_foldl_markLoser predictions_foldl_payWinner row)
qed


lemma resolvePoll_row:
  assumes poll: "findPoll d pid = Some poll" "poll_resolvedAt poll = None"
    and wp: "wp = totalPoints (filter (\<lambda>p. optionId p = w) (unresolvedPredictions d pid))"
    and tp: "tp = totalPoints (unresolvedPredictions d pid)"
    and nz: "wp \<noteq> 0"
    and dist: "distinct (map pred_id (predictions d))"
    and q: "q \<in> set (predictions d)"
  shows "findPrediction (snd (resolvePoll now d pid w src)) (pred_id q)
           = Some (rowAfter now pid w tp wp q)"
proof -
  have "pred_id (rowAfter now pid w tp wp r) = pred_id r" for r
    by (simp add: rowAfter_def)
  then show ?thesis
    unfolding findPrediction_def resolvePoll_predictions [OF poll wp tp nz dist]
    by (simp add: find_map_pred_id find_distinct_member [OF dist q])
qed

section \<open>Payouts of a resolution\<close>



section \<open>Reputation updates of a resolution\<close>

lemma users_payWinner:
  "users (payWinner now tp wp d p) =
     map (\<lambda>u. if user_id u = userId p
        then u\<lparr>reputation := reputation u
                 + reputationChange (of_int (finalPayout tp wp p)) (confidence p)\<rparr>
        else u) (users d)"
  by (simp add: payWinner_def Let_def updateUserReputation_def updatePrediction_def)

lemma users_markLoser:
  "users (markLoser now d p) =
     map (\<lambda>u. if user_id u = userId p
        then u\<lparr>reputation := reputation u + reputationChange (- of_int (points p) * (1 / 10)) 0\<rparr>
        else u) (users d)"
  by (simp add: markLoser_def Let_def updateUserReputation_def updatePrediction_def)

lemma users_foldl_payWinner:
  "users (foldl (payWinner now tp wp) d ps) =
     map (\<lambda>u. u\<lparr>reputation := reputation u
          + (\<Sum>p\<leftarrow>filter (\<lambda>p. userId p = user_id u) ps.
               reputationChange (of_int (finalPayout tp wp p)) (confidence p))\<rparr>) (users d)"
proof (induction ps arbitrary: d)
  case Nil
  then show ?case by (simp add: map_idI)
next
  case (Cons p ps)
  show ?case
    unfolding foldl_Cons Cons.IH users_payWinner map_map
    by (rule map_cong) (auto simp: o_def)
qed

lemma users_foldl_markLoser:
  "users (foldl (markLoser now) d ps) =
     map (\<lambda>u. u\<lparr>reputation := reputation u
          + (\<Sum>p\<leftarrow>filter (\<lambda>p. userId p = user_id u) ps.
               reputationChange (- of_int (points p) * (1 / 10)) 0)\<rparr>) (users d)"
proof (induction ps arbitrary: d)
  case Nil
  then show ?case by (simp add: map_idI)
next
  case (Cons p ps)
  show ?case
    unfolding foldl_Cons Cons.IH users_markLoser map_map
    by (rule map_cong) (auto simp: o_def)
qed

lemma find_map_user_id:
  assumes "\<And>u. user_id (g u) = user_id u"
  shows "find (\<lambda>u. user_id u = i) (map g xs) = map_option g (find (\<lambda>u. user_id u = i) xs)"
  by (induction xs) (simp_all add: assms)

lemma find_Some_user_id: "find (\<lambda>u. user_id u = i) xs = Some u \<Longrightarrow> user_id u = i"
  by (induction xs) (auto split: if_splits)

lemma filter_only:
  assumes "distinct xs" and "p \<in> set xs" and "\<And>q. q \<in> set xs \<Longrightarrow> P q \<Longrightarrow> q = p" and "P p"
  shows "filter P xs = [p]"
  using assms
proof (induction xs)
  case Nil
  then show ?case by simp
next
  case (Cons x xs)
  show ?case
  proof (cases "x = p")
    case True
    then have "p \<notin> set xs" using Cons.prems(1) by simp
    then have "filter P xs = []"
      using Cons.prems(3) by (auto simp: filter_empty_conv)
    then show ?thesis using True Cons.prems(4) by simp
  next
    case False
    then have "\<not> P x" using Cons.prems(3) [of x] by auto
    moreover have "filter P xs = [p]"
      using Cons.IH Cons.prems False by auto
    ultimately show ?thesis by simp
  qed
qed

lemma resolvePoll_loser_reputation_general:
  assumes poll: "findPoll d pid = Some poll" "poll_resolvedAt poll = None"
    and dist: "distinct (map pred_id (predictions d))"
    and nz: "totalPoints (filter (\<lambda>pred. optionId pred = w) (unresolvedPredictions d pid)) \<noteq> 0"
    and p: "p \<in> set (unresolvedPredictions d pid)" "optionId p \<noteq> w"
    and only: "\<forall>q \<in> set (unresolvedPredictions d pid). userId q = userId p \<longrightarrow> q = p"
    and u: "findUser d (userId p) = Some u"
  shows "findUser (snd (resolvePoll now d pid w src)) (userId p)
           = Some (u\<lparr>reputation := reputation u + \<lfloor>- (of_int (points p) :: rat) * (1 / 100)\<rfloor>\<rparr>)"
proof -
  let ?U = "unresolvedPredictions d pid"
  let ?W = "filter (\<lambda>p. optionId p = w) ?U"
  let ?L = "filter (\<lambda>p. optionId p \<noteq> w) ?U"
  have dU: "distinct ?U"
    using dist by (simp add: unresolvedPredictions_def distinct_map)
  have uid: "user_id u = userId p"
    using u unfolding findUser_def by (rule find_Some_user_id)
  have W: "filter (\<lambda>q. userId q = userId p) ?W = []"
    using only p by (auto simp: filter_empty_conv)
  have L: "filter (\<lambda>q. userId q = userId p) ?L = [p]"
    by (rule filter_only) (use dU only p in auto)
  have rc: "reputationChange (- of_int (points p) * (1 / 10)) 0
      = \<lfloor>- (of_int (points p) :: rat) * (1 / 100)\<rfloor>"
    by (simp add: reputationChange_def)
  show ?thesis
    unfolding resolvePoll_settled [OF poll refl refl nz] findUser_def snd_conv
      users_foldl_markLoser users_foldl_payWinner users_updatePoll map_map o_def
    using u uid W L rc
    by (simp add: find_map_user_id findUser_def)
qed


section \<open>The sum of the payouts\<close>

lemma storedPayout_winner:
  assumes poll: "findPoll d pid = Some poll" "poll_resolvedAt poll = None"
    and wp: "wp = totalPoints (filter (\<lambda>p. optionId p = w) (unresolvedPredictions d pid))"
    and tp: "tp = totalPoints (unresolvedPredictions d pid)"
    and nz: "wp \<noteq> 0"
    and dist: "distinct (map pred_id (predictions d))"
    and p: "p \<in> set (unresolvedPredictions d pid)" "optionId p = w"
  shows "storedPayout (snd (resolvePoll now d pid w src)) (pred_id p) = finalPayout tp wp p"
proof -
  have "p \<in> set (predictions d)" "pollId p = pid" "\<not> isResolved p"
    using p(1) by (auto simp: unresolvedPredictions_def)
  then show ?thesis
    using resolvePoll_row [OF poll wp tp nz dist, of p now src] p(2)
    by (simp add: storedPayout_def rowAfter_def resolvedWith_def payoutOrZero_def)
qed

section \<open>Resolving twice\<close>

lemma polls_payWinner [simp]: "polls (payWinner now tp wp d p) = polls d"
  by (simp add: payWinner_def Let_def updateUserReputation_def updatePrediction_def)

lemma polls_markLoser [simp]: "polls (markLoser now d p) = polls d"
  by (simp add: markLoser_def Let_def updateUserReputation_def updatePrediction_def)

lemma polls_foldl_payWinner [simp]: "polls (foldl (payWinner now tp wp) d ps) = polls d"
  by (induction ps arbitrary: d) simp_all

lemma polls_foldl_markLoser [simp]: "polls (foldl (markLoser now) d ps) = polls d"
  by (induction ps arbitrary: d) simp_all

lemma find_map_poll_id:
  assumes "\<And>q. poll_id (g q) = poll_id q"
  shows "find (\<lambda>q. poll_id q = i) (map g xs) = map_option g (find (\<lambda>q. poll_id q = i) xs)"
  by (induction xs) (simp_all add: assms)

lemma find_Some_poll_id: "find (\<lambda>q. poll_id q = i) xs = Some q \<Longrightarrow> poll_id q = i"
  by (induction xs) (auto split: if_splits)

lemma resolvePoll_first:
  assumes "findPoll d pid = Some poll" and "poll_resolvedAt poll = None"
  shows "fst (resolvePoll now d pid w src) = Inr ()"
    and "findPoll (snd (resolvePoll now d pid w src)) pid
           = Some (poll\<lparr>poll_resolvedAt := Some now, resolutionResult := Some w,
                        resolutionSource := Some src, isActive := False\<rparr>)"
proof -
  show "fst (resolvePoll now d pid w src) = Inr ()"
    using assms by (simp add: resolvePoll_def Let_def)
  have "poll_id poll = pid"
    using assms(1) unfolding findPoll_def by (rule find_Some_poll_id)
  then show "findPoll (snd (resolvePoll now d pid w src)) pid
           = Some (poll\<lparr>poll_resolvedAt := Some now, resolutionResult := Some w,
                        resolutionSource := Some src, isActive := False\<rparr>)"
    using assms
    by (simp add: resolvePoll_def Let_def findPoll_def updatePoll_def find_map_poll_id)
qed

lemma resolvePoll_again:
  assumes "findPoll d pid = Some poll" and "poll_resolvedAt poll \<noteq> None"
  shows "resolvePoll now d pid w src = (Inl PollAlreadyResolved, d)"
  using assms by (simp add: resolvePoll_def)

text \<open>
  C5. On a stored poll that is not resolved yet, resolvePoll succeeds; on the store \<open>d1\<close>
  it leaves, every further resolvePoll of the same poll (whatever the time, the winning
  option and the source) fails with PollAlreadyResolved and returns \<open>d1\<close> itself, so the
  poll, the predictions and the users are as the first call left them, also after any
  sequence of such calls.
\<close>

theorem resolvePoll_exactly_once:
  assumes "findPoll d pid = Some poll" and "poll_resolvedAt poll = None"
    and "d1 = snd (resolvePoll now d pid w src)"
  shows "fst (resolvePoll now d pid w src) = Inr ()
       \<and> resolvePoll now' d1 pid w' src' = (Inl PollAlreadyResolved, d1)
       \<and> foldl (\<lambda>s call. snd (resolvePoll (fst call) s pid (fst (snd call)) (snd (snd call))))
            d1 calls = d1"
proof -
  have again: "resolvePoll n d1 pid x y = (Inl PollAlreadyResolved, d1)" for n x y
    unfolding assms(3)
    by (rule resolvePoll_again [OF resolvePoll_first(2) [OF assms(1,2)]]) simp
  have "foldl (\<lambda>s call. snd (resolvePoll (fst call) s pid (fst (snd call)) (snd (snd call))))
            d1 calls = d1"
    by (induction calls) (simp_all add: again)
  then show ?thesis
    using resolvePoll_first(1) [OF assms(1,2)] again by simp
qed

theorem resolvePoll_exactly_once_witness:
  "findPoll scenario ''P'' = Some poll_P \<and> poll_resolvedAt poll_P = None
   \<and> fst (resolvePoll 5000 scenario ''P'' ''A'' ''admin'') = Inr ()
   \<and> resolvePoll 6000 resolved_scenario ''P'' ''B'' ''again''
        = (Inl PollAlreadyResolved, resolved_scenario)"
proof -
  have h1: "findPoll scenario ''P'' = Some poll_P" by code_simp
  have h2: "poll_resolvedAt poll_P = None" by code_simp
  have h3: "resolved_scenario = snd (resolvePoll 5000 scenario ''P'' ''A'' ''admin'')"
    by (simp add: resolved_scenario_def)
  from resolvePoll_exactly_once [OF h1 h2 h3, of 6000 "''B''" "''again''" "[]"]
  show ?thesis using h1 h2 by simp
qed

section \<open>Predictions of a poll without winners\<close>

text \<open>
  C6 fails where nobody predicted the winning option. In the market where only userY has
  predicted (on B), resolving for A succeeds and stamps the poll, and returns before the
  loop that marks the losers: userY's prediction is stored as before, with
  \<open>isResolved = false\<close>, no payout and no \<open>resolvedAt\<close>.
\<close>

theorem resolvePoll_no_winner_leaves_open:
  "fst (resolvePoll 5000 one_sided ''P'' ''A'' ''admin'') = Inr ()
   \<and> map_option poll_resolvedAt (findPoll (snd (resolvePoll 5000 one_sided ''P'' ''A'' ''admin'')) ''P'')
       = Some (Some 5000)
   \<and> findPrediction (snd (resolvePoll 5000 one_sided ''P'' ''A'' ''admin'')) ''py'' = Some pred_y
   \<and> isResolved pred_y = False \<and> payout pred_y = None \<and> resolvedAt pred_y = None"
  by code_simp

section \<open>The reputation of a loser\<close>

text \<open>
  C7, as the code has it. updateUserReputation receives the negated stake and rounds its
  product down, so a loser's reputation changes by \<open>floor(- stake * 0.01)\<close>, which is
  \<open>- ceiling(stake * 0.01)\<close>. This holds for a losing prediction of a successful resolution
  with a positive winning pool, the prediction being its user's only open one on the poll
  (the store keeps one prediction per user and poll).
\<close>

theorem resolvePoll_loser_reputation:
  assumes "findPoll d pid = Some poll" and "poll_resolvedAt poll = None"
    and "distinct (map pred_id (predictions d))"
    and "0 < totalPoints (filter (\<lambda>pred. optionId pred = w) (unresolvedPredictions d pid))"
    and "p \<in> set (unresolvedPredictions d pid)" and "optionId p \<noteq> w"
    and "\<forall>q \<in> set (unresolvedPredictions d pid). userId q = userId p \<longrightarrow> q = p"
    and "findUser d (userId p) = Some u"
  shows "findUser (snd (resolvePoll now d pid w src)) (userId p)
           = Some (u\<lparr>reputation := reputation u + \<lfloor>- (of_int (points p) :: rat) * (1 / 100)\<rfloor>\<rparr>)
       \<and> \<lfloor>- (of_int (points p) :: rat) * (1 / 100)\<rfloor> = - \<lceil>(of_int (points p) :: rat) * (1 / 100)\<rceil>"
proof -
  have nz: "totalPoints (filter (\<lambda>pred. optionId pred = w) (unresolvedPredictions d pid)) \<noteq> 0"
    using assms(4) by simp
  show ?thesis
    using resolvePoll_loser_reputation_general [OF assms(1,2,3) nz assms(5,6,7,8)]
    by (simp add: ceiling_def)
qed

theorem resolvePoll_loser_reputation_witness:
  "findPoll scenario ''P'' = Some poll_P \<and> poll_resolvedAt poll_P = None
   \<and> distinct (map pred_id (predictions scenario))
   \<and> pred_y \<in> set (unresolvedPredictions scenario ''P'') \<and> optionId pred_y \<noteq> ''A''
   \<and> findUser scenario ''userY'' = Some \<lparr>user_id = ''userY'', reputation = 500\<rparr>
   \<and> findUser (snd (resolvePoll 5000 scenario ''P'' ''A'' ''admin'')) ''userY''
        = Some \<lparr>user_id = ''userY'', reputation = 499\<rparr>"
proof -
  have h1: "findPoll scenario ''P'' = Some poll_P" by code_simp
  have h2: "poll_resolvedAt poll_P = None" by code_simp
  have h3: "distinct (map pred_id (predictions scenario))" by code_simp
  have h4: "0 < totalPoints (filter (\<lambda>pred. optionId pred = ''A'')
                               (unresolvedPredictions scenario ''P''))" by code_simp
  have h5: "pred_y \<in> set (unresolvedPredictions scenario ''P'')" by code_simp
  have h6: "optionId pred_y \<noteq> ''A''" by code_simp
  have h7: "\<forall>q \<in> set (unresolvedPredictions scenario ''P''). userId q = userId pred_y \<longrightarrow> q = pred_y"
    by code_simp
  have h8: "findUser scenario (userId pred_y) = Some \<lparr>user_id = ''userY'', reputation = 500\<rparr>"
    by code_simp
  have py: "userId pred_y = ''userY''" "points pred_y = 50" by (simp_all add: pred_y_def)
  have fl: "\<lfloor>- ((1::rat) / 2)\<rfloor> = - 1" "\<lceil>(1::rat) / 2\<rceil> = 1" by code_simp+
  from resolvePoll_loser_reputation [OF h1 h2 h3 h4 h5 h6 h7 h8, of 5000 "''admin''"]
  show ?thesis using h1 h2 h3 h5 h6 h8 by (simp add: py fl)
qed

text \<open>
  C7 as stated fails in the two-prediction market: userY, who staked 50 and lost, goes
  from 500 to 499, whereas \<open>floor(50 * 0.1 * 0.1) = 0\<close>.
\<close>

theorem loser_reputation_counterexample:
  "map_option reputation (findUser scenario ''userY'') = Some 500
   \<and> map_option reputation (findUser resolved_scenario ''userY'') = Some 499
   \<and> (500::int) - \<lfloor>(50::rat) * (1 / 10) * (1 / 10)\<rfloor> = 500"
  by code_simp

section \<open>The market without predictions\<close>

text \<open>
  C2 fails on the code. In the market without predictions the raw probabilities are all
  \<open>0\<close>, the normalisation divides \<open>0.95\<close> by their sum \<open>0\<close> and multiplies \<open>0\<close> by the
  infinite factor: every option is returned with probability NaN and implied odds
  \<^verbatim>\<open>1:NaN\<close>, although formatOdds has the sentinel for probability \<open>0\<close>.
\<close>

theorem getMarketOdds_without_predictions:
  "optionPredictions quiet_market ''A'' = [] \<and> optionPredictions quiet_market ''B'' = []
   \<and> unresolvedPredictions quiet_market ''P'' = []
   \<and> getMarketOdds 5000 quiet_market ''P''
       = Inr [\<lparr>mo_optionId = ''A'', probability = NaN, impliedOdds = ''1:NaN'', volume = 0,
                mo_trend = Stable, mo_confidence = 0\<rparr>,
              \<lparr>mo_optionId = ''B'', probability = NaN, impliedOdds = ''1:NaN'', volume = 0,
                mo_trend = Stable, mo_confidence = 0\<rparr>]
   \<and> formatOdds (Fin 0) = INFINITY_SIGN @ '':1''"
  by code_simp

section \<open>The leaderboard\<close>

text \<open>
  C8 fails on the code. The query takes the first \<open>limit\<close> users before any net profit is
  computed, and only those are sorted. In the resolved two-prediction market the full
  board is userX (+55), userY (-50); with \<open>limit = 1\<close> the board is userY alone, the first
  user of the table, and not userX.
\<close>

theorem getLeaderboard_truncates_before_sorting:
  "map (\<lambda>e. (lb_userId e, netProfit e)) (getLeaderboard 9000 resolved_scenario All 2)
     = [(''userX'', 55), (''userY'', - 50)]
   \<and> map (\<lambda>e. (lb_userId e, netProfit e)) (getLeaderboard 9000 resolved_scenario All 1)
     = [(''userY'', - 50)]"
  by code_simp

section \<open>Analytics without predictions\<close>

text \<open>
  C9, as the code has it. For a poll without open predictions getMarketAnalytics returns
  (it has no failing branch) with totalVolume, uniquePredictors, averageConfidence,
  consensusProbability and liquidityIndex zero; marketEfficiency is \<open>1\<close>, the value
  calculateMarketEfficiency gives to fewer than two predictions; volatility is computed
  from the poll's vote snapshots alone, and is \<open>0\<close> when there are fewer than two of them.
\<close>

theorem getMarketAnalytics_without_predictions:
  assumes "unresolvedPredictions d pid = []"
  shows "getMarketAnalytics d pid
           = \<lparr>totalVolume = 0, uniquePredictors = 0, averageConfidence = 0,
              consensusProbability = Fin 0, marketEfficiency = 1,
              volatility = calculateVolatility d pid, liquidityIndex = 0\<rparr>
       \<and> (length (filter (\<lambda>s. snap_pollId s = pid) (voteSnapshots d)) < 2
            \<longrightarrow> calculateVolatility d pid = 0)"
  using assms
  by (simp add: getMarketAnalytics_def Let_def calculateConsensus_def
      calculateMarketEfficiency_def calculateLiquidityIndex_def calculateVolatility_def
      dsum_def ddiv_def dadd_def)

theorem getMarketAnalytics_without_predictions_witness:
  "unresolvedPredictions quiet_market ''P'' = []
   \<and> getMarketAnalytics quiet_market ''P''
       = \<lparr>totalVolume = 0, uniquePredictors = 0, averageConfidence = 0,
          consensusProbability = Fin 0, marketEfficiency = 1,
          volatility = 15, liquidityIndex = 0\<rparr>
   \<and> unresolvedPredictions (quiet_market\<lparr>voteSnapshots := []\<rparr>) ''P'' = []
   \<and> length (filter (\<lambda>s. snap_pollId s = ''P'') (voteSnapshots (quiet_market\<lparr>voteSnapshots := []\<rparr>))) < 2
   \<and> getMarketAnalytics (quiet_market\<lparr>voteSnapshots := []\<rparr>) ''P''
       = \<lparr>totalVolume = 0, uniquePredictors = 0, averageConfidence = 0,
          consensusProbability = Fin 0, marketEfficiency = 1,
          volatility = 0, liquidityIndex = 0\<rparr>"
proof -
  have h: "unresolvedPredictions quiet_market ''P'' = []" by code_simp
  have v: "calculateVolatility quiet_market ''P'' = 15" by code_simp
  have h': "unresolvedPredictions (quiet_market\<lparr>voteSnapshots := []\<rparr>) ''P'' = []" by code_simp
  have l: "length (filter (\<lambda>s. snap_pollId s = ''P'')
                    (voteSnapshots (quiet_market\<lparr>voteSnapshots := []\<rparr>))) < 2" by simp
  from getMarketAnalytics_without_predictions [OF h]
    getMarketAnalytics_without_predictions [OF h']
  show ?thesis using h h' by (simp add: v)
qed

text \<open>
  C9 as stated fails in the market without predictions: marketEfficiency is \<open>1\<close>, and with
  the two snapshots (40 and 55 percent) volatility is \<open>15\<close>.
\<close>

theorem zeroed_metrics_counterexample:
  "unresolvedPredictions quiet_market ''P'' = []
   \<and> marketEfficiency (getMarketAnalytics quiet_market ''P'') = 1
   \<and> volatility (getMarketAnalytics quiet_market ''P'') = 15"
  by code_simp


section \<open>Overwriting a prediction\<close>

lemma find_Some_member: "find P xs = Some x \<Longrightarrow> x \<in> set xs \<and> P x"
  by (induction xs) (auto split: if_splits)

lemma find_map_other:
  assumes "i \<noteq> j" and "\<And>q. pred_id (g q) = pred_id q"
  shows "find (\<lambda>p. pred_id p = i) (map (\<lambda>p. if pred_id p = j then g p else p) xs)
           = find (\<lambda>p. pred_id p = i) xs"
  using assms by (induction xs) auto

text \<open>
  C10. When createPrediction succeeds for a user who already has a prediction \<open>old\<close> on the
  poll, the row with that id afterwards is \<open>old\<close> with createdAt set to the time of the new
  submission and optionId, confidence and points set from the payload; reasoning is set
  from the payload when it carries one (a payload without reasoning leaves the stored
  text, as Prisma skips an undefined field). The id, userId and pollId are those of
  \<open>old\<close>, and every other prediction is stored as before. Prediction ids are unique.
\<close>

theorem createPrediction_overwrite:
  assumes "find (\<lambda>p. userId p = pl_userId payload \<and> pollId p = pl_pollId payload) (predictions d)
             = Some old"
    and "fst (createPrediction now freshId d payload) = Inr pr"
    and "distinct (map pred_id (predictions d))"
    and "d' = snd (createPrediction now freshId d payload)"
  shows "findPrediction d' (pred_id old) = Some pr
       \<and> pr = old\<lparr>optionId := pl_optionId payload,
                   confidence := pl_confidence payload,
                   points := pl_points payload,
                   reasoning := (case pl_reasoning payload of None \<Rightarrow> reasoning old
                                 | Some r \<Rightarrow> Some r),
                   createdAt := now\<rparr>
       \<and> createdAt pr = now
       \<and> pred_id pr = pred_id old \<and> userId pr = userId old \<and> pollId pr = pollId old
       \<and> (i \<noteq> pred_id old \<longrightarrow> findPrediction d' i = findPrediction d i)"
proof -
  have mem: "old \<in> set (predictions d)"
    using find_Some_member [OF assms(1)] by simp
  have res: "pr = overwrite now payload old"
    and st: "d' = updatePrediction d (pred_id old) (overwrite now payload)"
    using assms(1,2,4)
    by (auto simp: createPrediction_def split: if_splits option.splits)
  have keep: "pred_id (if pred_id q = pred_id old then overwrite now payload q else q) = pred_id q"
    for q by (simp add: overwrite_def)
  have "findPrediction d' (pred_id old) = Some pr"
    unfolding st res findPrediction_def updatePrediction_def
    using find_map_pred_id [of "\<lambda>q. if pred_id q = pred_id old then overwrite now payload q else q",
        OF keep, of "pred_id old" "predictions d"]
      find_distinct_member [OF assms(3) mem]
    by simp
  moreover have "i \<noteq> pred_id old \<longrightarrow> findPrediction d' i = findPrediction d i"
    unfolding st findPrediction_def updatePrediction_def
    by (simp add: find_map_other overwrite_def)
  ultimately show ?thesis
    by (simp add: res overwrite_def)
qed

theorem createPrediction_overwrite_witness:
  "find (\<lambda>p. userId p = ''userX'' \<and> pollId p = ''P'') (predictions scenario) = Some pred_x
   \<and> distinct (map pred_id (predictions scenario))
   \<and> findPrediction
        (snd (createPrediction 7000 ''fresh'' scenario
               \<lparr>pl_userId = ''userX'', pl_pollId = ''P'', pl_optionId = ''B'',
                pl_confidence = 1 / 2, pl_points = 10, pl_reasoning = None\<rparr>)) ''px''
       = Some \<lparr>pred_id = ''px'', userId = ''userX'', pollId = ''P'', optionId = ''B'',
               confidence = 1 / 2, reasoning = Some ''first thoughts'', points = 10,
               payout = None, isResolved = False, createdAt = 7000, resolvedAt = None\<rparr>
   \<and> findPrediction
        (snd (createPrediction 7000 ''fresh'' scenario
               \<lparr>pl_userId = ''userX'', pl_pollId = ''P'', pl_optionId = ''B'',
                pl_confidence = 1 / 2, pl_points = 10, pl_reasoning = None\<rparr>)) ''py''
       = Some pred_y"
proof -
  let ?pl = "\<lparr>pl_userId = ''userX'', pl_pollId = ''P'', pl_optionId = ''B'',
               pl_confidence = 1 / 2, pl_points = 10, pl_reasoning = None\<rparr>"
  let ?new = "\<lparr>pred_id = ''px'', userId = ''userX'', pollId = ''P'', optionId = ''B'',
               confidence = 1 / 2, reasoning = Some ''first thoughts'', points = 10,
               payout = None, isResolved = False, createdAt = 7000, resolvedAt = None\<rparr>"
  let ?d' = "snd (createPrediction 7000 ''fresh'' scenario ?pl)"
  have h1s: "find (\<lambda>p. userId p = ''userX'' \<and> pollId p = ''P'') (predictions scenario)
              = Some pred_x" by code_simp
  have h1: "find (\<lambda>p. userId p = pl_userId ?pl \<and> pollId p = pl_pollId ?pl) (predictions scenario)
              = Some pred_x" using h1s by simp
  have h2: "fst (createPrediction 7000 ''fresh'' scenario ?pl) = Inr ?new" by code_simp
  have h3: "distinct (map pred_id (predictions scenario))" by code_simp
  have px: "pred_id pred_x = ''px''" by (simp add: pred_x_def)
  have py: "findPrediction scenario ''py'' = Some pred_y" by code_simp
  note T = createPrediction_overwrite [OF h1 h2 h3 refl, of "''py''"]
  have a: "findPrediction ?d' (pred_id pred_x) = Some ?new"
    using T by blast
  have ne: "''py'' \<noteq> pred_id pred_x" by (simp add: px)
  have b: "findPrediction ?d' ''py'' = findPrediction scenario ''py''"
    using T ne by blast
  show ?thesis
  proof (intro conjI)
    show "find (\<lambda>p. userId p = ''userX'' \<and> pollId p = ''P'') (predictions scenario) = Some pred_x"
      by (rule h1s)
    show "distinct (map pred_id (predictions scenario))" by (rule h3)
    show "findPrediction ?d' ''px'' = Some ?new" using a by (simp only: px)
    show "findPrediction ?d' ''py'' = Some pred_y" using b py by simp
  qed
qed

end
